theory Spec2Isabelle
  imports Main "HOL-Library.Word"
begin

unbundle bit_operations_syntax

section \<open>The wasm test runner of test/cctest/wasm/wasm-run-utils.h\<close>

text \<open>
  The header declares the module builder and the runner that the wasm execution tests use:
  \<^verbatim>\<open>TestingModuleBuilder\<close> owns the module under construction, \<^verbatim>\<open>WasmRunnerBase\<close> and
  \<^verbatim>\<open>WasmRunner\<close> build one main function and call it, through the interpreter or through a
  compiled wrapper. Member functions become functions on records that return the updated
  record; \<^verbatim>\<open>CHECK\<close>, \<^verbatim>\<open>DCHECK\<close> and \<^verbatim>\<open>UNREACHABLE\<close> become error results.
  \<^verbatim>\<open>DCHECK\<close> is modelled as in a debug build, where it aborts. A data member \<^verbatim>\<open>name_\<close> of
  the source is the record field \<open>name_m\<close>.
\<close>

datatype error = CheckFailed | DcheckFailed | Unreachable

subsection \<open>Signatures and the module's type table\<close>

text \<open>
  \<^verbatim>\<open>ValueType\<close> and \<^verbatim>\<open>FunctionSig\<close> are declared outside this header (the latter is a
  \<^verbatim>\<open>Signature<ValueType>\<close>: a sequence of return types and a sequence of parameter
  types). Two signatures are structurally equal when both sequences are equal, which is
  equality of the record.
\<close>

datatype ValueType = kWasmI32 | kWasmI64 | kWasmF32 | kWasmF64 | kWasmFuncRef

record FunctionSig =
  returns :: "ValueType list"
  parameters :: "ValueType list"

text \<open>
  The part of \<^verbatim>\<open>WasmModule\<close> that \<^verbatim>\<open>AddSignature\<close> touches: the vector \<^verbatim>\<open>types\<close>, the
  vector \<^verbatim>\<open>canonicalized_type_ids\<close>, which the \<^verbatim>\<open>DCHECK_EQ\<close> of \<^verbatim>\<open>AddSignature\<close> keeps as
  long as \<^verbatim>\<open>types\<close>, and the signature map that hands out the canonical ids.
\<close>

record WasmModule =
  types :: "FunctionSig list"
  canonicalized_type_ids :: "nat list"
  signature_map :: "FunctionSig list"

text \<open>
  Modelled from the spec: the canonicalized signature table of the module
  (\<^verbatim>\<open>SignatureMap::FindOrInsert\<close> belongs to src/wasm/ and is missing from the
  sources). Signatures are compared by structure; a signature that is already in the table
  keeps its id, a new one gets the next free id. The table is the list of the canonical
  signatures and the id of a signature is its position.
\<close>

fun Find :: "FunctionSig \<Rightarrow> FunctionSig list \<Rightarrow> nat option" where
  "Find sig [] = None"
| "Find sig (s # ss) =
     (if s = sig then Some 0 else map_option Suc (Find sig ss))"

definition FindOrInsert :: "FunctionSig \<Rightarrow> FunctionSig list \<Rightarrow> nat \<times> FunctionSig list" where
  "FindOrInsert sig m =
     (case Find sig m of
        Some i \<Rightarrow> (i, m)
      | None \<Rightarrow> (length m, m @ [sig]))"

text \<open>
  Modelled from the spec: \<^verbatim>\<open>WasmModule::add_signature\<close> (declared in src/wasm/wasm-module.h,
  which is missing from the sources). It records the signature as one more entry of \<^verbatim>\<open>types\<close>
  and pushes its canonical id, so that both vectors keep the same length, as the
  \<^verbatim>\<open>DCHECK_EQ\<close> at the start of \<^verbatim>\<open>AddSignature\<close> requires of every module it is given.
\<close>

definition add_signature :: "FunctionSig \<Rightarrow> WasmModule \<Rightarrow> WasmModule" where
  "add_signature sig m =
     (let (canonical_id, sm) = FindOrInsert sig (signature_map m)
      in m\<lparr>types := types m @ [sig],
           canonicalized_type_ids := canonicalized_type_ids m @ [canonical_id],
           signature_map := sm\<rparr>)"

text \<open>
  The spec's words for the same operation, for comparison: a signature that is
  structurally equal to one already in the type table is not added again.
\<close>

definition add_signature_dedup :: "FunctionSig \<Rightarrow> WasmModule \<Rightarrow> WasmModule" where
  "add_signature_dedup sig m =
     (if sig \<in> set (types m) then m else add_signature sig m)"

subsection \<open>Execution tiers and the native module\<close>

text \<open>
  \<^verbatim>\<open>ExecutionTier\<close> (src/wasm/wasm-tier.h) and the tiering state of the native module are
  declared outside this header; the enumerators below are the ones the header names,
  with \<^verbatim>\<open>kTieredUp\<close> as the state a module is in before it is tiered down.
  \<^verbatim>\<open>
  enum class TestExecutionTier : int8_t {
    kLiftoff = static_cast<int8_t>(ExecutionTier::kLiftoff),
    kTurbofan = static_cast<int8_t>(ExecutionTier::kTurbofan),
    kInterpreter,
    kLiftoffForFuzzing
  };
  \<close>
\<close>

datatype ExecutionTier = kLiftoff | kTurbofan

datatype TestExecutionTier = kLiftoff | kTurbofan | kInterpreter | kLiftoffForFuzzing

datatype TieringState = kTieredUp | kTieredDown

text \<open>
  Modelled from the spec: the native module (\<^verbatim>\<open>NativeModule\<close>, declared in
  src/wasm/wasm-code-manager.h, is missing from the sources). It holds the tiering
  state of the module and, per function index, the tier tag of the function's current
  code object. \<^verbatim>\<open>SetTieringState\<close> records the requested state.
  \<^verbatim>\<open>RecompileForTiering\<close> is the recompilation request of the spec's tiering state machine:
  once it is complete, the current code object of every function is of the tier the
  tiering state asks for, the baseline tier when tiered down. The model is sequential, so
  the request is complete when it returns.
\<close>

record NativeModule =
  tiering_state :: TieringState
  code_table :: "ExecutionTier list"

definition SetTieringState :: "TieringState \<Rightarrow> NativeModule \<Rightarrow> NativeModule" where
  "SetTieringState new_tiering_state nm = nm\<lparr>tiering_state := new_tiering_state\<rparr>"

definition RecompileForTiering :: "NativeModule \<Rightarrow> NativeModule" where
  "RecompileForTiering nm =
     nm\<lparr>code_table :=
          map (\<lambda>_. case tiering_state nm of
                      kTieredDown \<Rightarrow> ExecutionTier.kLiftoff
                    | kTieredUp \<Rightarrow> ExecutionTier.kTurbofan)
              (code_table nm)\<rparr>"

subsection \<open>The interpreter as the runner sees it\<close>

text \<open>
  Modelled from the spec: the interpreter (\<^verbatim>\<open>WasmInterpreter\<close>, declared in
  test/common/wasm/wasm-interpreter.h, is missing from the sources). The runner
  reads four things from it after a run: its state, the number of interpreted calls, the
  return value and whether nondeterministic bit patterns may have occurred. Of the
  states, \<^verbatim>\<open>FINISHED\<close> and \<^verbatim>\<open>TRAPPED\<close> are the ones the header names; they are the spec's
  outcomes \<open>Returned\<close> and \<open>Trapped\<close>. A run that is neither has not come to an end:
  it has not started (\<^verbatim>\<open>STOPPED\<close>), or it was suspended, as when the step budget is
  exhausted (\<^verbatim>\<open>PAUSED\<close>), the spec's outcome \<open>Exhausted\<close>.
  The return value is the one \<^verbatim>\<open>GetReturnValue().to<ReturnType>()\<close> yields, for an
  \<^verbatim>\<open>ReturnType\<close> \<open>'v\<close>.
\<close>

datatype State = STOPPED | PAUSED | FINISHED | TRAPPED

record 'v WasmInterpreter =
  state :: State
  NumInterpretedCalls :: int
  GetReturnValue :: 'v
  PossibleNondeterminism :: bool

subsection \<open>TestingModuleBuilder\<close>

text \<open>
  The fields of the builder that the member functions defined in the header read or
  write. \<^verbatim>\<open>interpreter_\<close> is a \<^verbatim>\<open>unique_ptr\<close>: \<open>None\<close> is the null pointer.
\<close>

record 'v TestingModuleBuilder =
  test_module_m :: WasmModule
  interpreter_m :: "'v WasmInterpreter option"
  execution_tier_m :: TestExecutionTier
  native_module_m :: NativeModule
  max_steps_m :: "32 word"

text \<open>
  \<^verbatim>\<open>
  byte AddSignature(const FunctionSig* sig) {
    DCHECK_EQ(test_module_->types.size(),
              test_module_->canonicalized_type_ids.size());
    test_module_->add_signature(sig);
    size_t size = test_module_->types.size();
    CHECK_GT(127, size);
    return static_cast<byte>(size - 1);
  }
  \<close>
  \<^verbatim>\<open>size_t\<close> is 64 bits wide: \<^verbatim>\<open>size - 1\<close> wraps at \<open>2 ^ 64\<close> and the cast to \<^verbatim>\<open>byte\<close>
  keeps the low 8 bits. The function is given the module operation it calls, so that it
  can be read with either rendering of \<^verbatim>\<open>add_signature\<close>; \<open>AddSignature\<close> is the
  function with the module's own operation.
\<close>

definition AddSignature_with ::
  "(FunctionSig \<Rightarrow> WasmModule \<Rightarrow> WasmModule) \<Rightarrow> FunctionSig \<Rightarrow> 'a TestingModuleBuilder
     \<Rightarrow> error + (8 word \<times> 'a TestingModuleBuilder)" where
  "AddSignature_with add sig b =
     (if length (types (test_module_m b)) \<noteq> length (canonicalized_type_ids (test_module_m b))
      then Inl DcheckFailed
      else
        let b' = b\<lparr>test_module_m := add sig (test_module_m b)\<rparr>;
            size = length (types (test_module_m b'))
        in if 127 > size
           then Inr (of_nat ((size + 2 ^ 64 - 1) mod 2 ^ 64), b')
           else Inl CheckFailed)"

definition AddSignature ::
  "FunctionSig \<Rightarrow> 'a TestingModuleBuilder \<Rightarrow> error + (8 word \<times> 'a TestingModuleBuilder)" where
  "AddSignature = AddSignature_with add_signature"

text \<open>A test that adds several signatures, one call after the other, and collects the
  returned indices.\<close>

fun AddSignatures_with ::
  "(FunctionSig \<Rightarrow> WasmModule \<Rightarrow> WasmModule) \<Rightarrow> FunctionSig list \<Rightarrow> 'v TestingModuleBuilder
     \<Rightarrow> error + (8 word list \<times> 'v TestingModuleBuilder)" where
  "AddSignatures_with add [] b = Inr ([], b)"
| "AddSignatures_with add (s # ss) b =
     (case AddSignature_with add s b of
        Inl e \<Rightarrow> Inl e
      | Inr (i, b') \<Rightarrow>
          (case AddSignatures_with add ss b' of
             Inl e \<Rightarrow> Inl e
           | Inr (is, b'') \<Rightarrow> Inr (i # is, b'')))"

text \<open>
  The invariant of a module under construction: the two vectors are of equal length and
  the canonical id recorded for a type is the id of its signature in the signature map.
  The empty module has it and \<open>add_signature\<close> keeps it.
\<close>

definition wf_module :: "WasmModule \<Rightarrow> bool" where
  "wf_module m =
     list_all2 (\<lambda>t canonical_id. Find t (signature_map m) = Some canonical_id)
       (types m) (canonicalized_type_ids m)"

text \<open>
  \<^verbatim>\<open>
  bool interpret() const { return interpreter_ != nullptr; }

  void SetTieredDown() {
    native_module_->SetTieringState(kTieredDown);
    execution_tier_ = TestExecutionTier::kLiftoff;
  }

  void TierDown() {
    SetTieredDown();
    native_module_->RecompileForTiering();
  }

  TestExecutionTier test_execution_tier() const { return execution_tier_; }

  ExecutionTier execution_tier() const {
    switch (execution_tier_) {
      case TestExecutionTier::kTurbofan:
        return ExecutionTier::kTurbofan;
      case TestExecutionTier::kLiftoff:
        return ExecutionTier::kLiftoff;
      default:
        UNREACHABLE();
    }
  }

  void set_max_steps(int n) { max_steps_ = n; }
  \<close>
\<close>

text \<open>\<^verbatim>\<open>interpret()\<close> is \<open>interpret_fn\<close>.\<close>

definition interpret_fn :: "'a TestingModuleBuilder \<Rightarrow> bool" where
  "interpret_fn b = (interpreter_m b \<noteq> None)"

definition SetTieredDown :: "'a TestingModuleBuilder \<Rightarrow> 'a TestingModuleBuilder" where
  "SetTieredDown b =
     b\<lparr>native_module_m := SetTieringState kTieredDown (native_module_m b),
       execution_tier_m := TestExecutionTier.kLiftoff\<rparr>"

definition TierDown :: "'a TestingModuleBuilder \<Rightarrow> 'a TestingModuleBuilder" where
  "TierDown b =
     (let b' = SetTieredDown b
      in b'\<lparr>native_module_m := RecompileForTiering (native_module_m b')\<rparr>)"



definition set_max_steps :: "32 word \<Rightarrow> 'a TestingModuleBuilder \<Rightarrow> 'a TestingModuleBuilder" where
  "set_max_steps n b = b\<lparr>max_steps_m := n\<rparr>"

subsection \<open>WasmRunnerBase and WasmRunner\<close>

text \<open>
  State that is not a member of a runner: the static \<^verbatim>\<open>WasmRunnerBase::trap_happened\<close>, the
  trap callback registered with \<^verbatim>\<open>set_trap_callback_for_testing\<close> (\<open>True\<close> when the
  lambda of \<^verbatim>\<open>SetUpTrapCallback\<close> is registered, \<open>False\<close> for \<^verbatim>\<open>nullptr\<close>), and the
  thread-local flag behind \<^verbatim>\<open>trap_handler::GetThreadInWasmThreadLocalAddress()\<close>.
\<close>

record Globals =
  trap_happened :: bool
  trap_callback :: bool
  thread_in_wasm :: bool

record 'v WasmRunnerBase =
  builder_m :: "'v TestingModuleBuilder"
  compiled_m :: bool
  possible_nondeterminism_m :: bool

text \<open>
  \<^verbatim>\<open>
  static void SetUpTrapCallback() {
    WasmRunnerBase::trap_happened = false;
    auto trap_callback = []() -> void {
      WasmRunnerBase::trap_happened = true;
      set_trap_callback_for_testing(nullptr);
    };
    set_trap_callback_for_testing(trap_callback);
  }
  \<close>
  \<open>signal_trap\<close> is what guest code does when it traps: it invokes the registered
  callback, if there is one.
\<close>

definition SetUpTrapCallback :: "Globals \<Rightarrow> Globals" where
  "SetUpTrapCallback g = g\<lparr>trap_happened := False, trap_callback := True\<rparr>"

definition signal_trap :: "Globals \<Rightarrow> Globals" where
  "signal_trap g =
     (if trap_callback g then g\<lparr>trap_happened := True, trap_callback := False\<rparr> else g)"

definition SetThreadInWasmFlag :: "Globals \<Rightarrow> Globals" where
  "SetThreadInWasmFlag g = g\<lparr>thread_in_wasm := True\<rparr>"

definition ClearThreadInWasmFlag :: "Globals \<Rightarrow> Globals" where
  "ClearThreadInWasmFlag g = g\<lparr>thread_in_wasm := False\<rparr>"

definition possible_nondeterminism :: "'a WasmRunnerBase \<Rightarrow> bool" where
  "possible_nondeterminism r = possible_nondeterminism_m r"


definition SetMaxSteps :: "32 word \<Rightarrow> 'a WasmRunnerBase \<Rightarrow> 'a WasmRunnerBase" where
  "SetMaxSteps n r = r\<lparr>builder_m := set_max_steps n (builder_m r)\<rparr>"

text \<open>
  \<^verbatim>\<open>
  #define CHECK_TRAP32(x) \
    CHECK_EQ(0xDEADBEEF, (bit_cast<uint32_t>(x)) & 0xFFFFFFFF)
  #define CHECK_TRAP64(x) \
    CHECK_EQ(0xDEADBEEFDEADBEEF, (bit_cast<uint64_t>(x)) & 0xFFFFFFFFFFFFFFFF)
  #define CHECK_TRAP(x) CHECK_TRAP32(x)

  #define WASM_WRAPPER_RETURN_VALUE 8754
  \<close>
\<close>

definition CHECK_TRAP32 :: "32 word \<Rightarrow> error + unit" where
  "CHECK_TRAP32 x = (if 0xDEADBEEF = (x AND 0xFFFFFFFF) then Inr () else Inl CheckFailed)"

definition CHECK_TRAP64 :: "64 word \<Rightarrow> error + unit" where
  "CHECK_TRAP64 x =
     (if 0xDEADBEEFDEADBEEF = (x AND 0xFFFFFFFFFFFFFFFF) then Inr () else Inl CheckFailed)"

definition CHECK_TRAP :: "32 word \<Rightarrow> error + unit" where
  "CHECK_TRAP x = CHECK_TRAP32 x"

definition WASM_WRAPPER_RETURN_VALUE :: "32 word" where
  "WASM_WRAPPER_RETURN_VALUE = 8754"

text \<open>
  \<^verbatim>\<open>
  ReturnType CallInterpreter(ParamTypes... p) {
    interpreter()->Reset();
    std::array<WasmValue, sizeof...(p)> args{{WasmValueInitializer(p)...}};
    interpreter()->InitFrame(function(), args.data());
    interpreter()->Run();
    CHECK_GT(interpreter()->NumInterpretedCalls(), 0);
    if (interpreter()->state() == WasmInterpreter::FINISHED) {
      WasmValue val = interpreter()->GetReturnValue();
      possible_nondeterminism_ |= interpreter()->PossibleNondeterminism();
      return val.to<ReturnType>();
    } else if (interpreter()->state() == WasmInterpreter::TRAPPED) {
      // TODO(titzer): return the correct trap code
      int64_t result = 0xDEADBEEFDEADBEEF;
      return static_cast<ReturnType>(result);
    } else {
      // TODO(titzer): falling off end
      return ReturnType{0};
    }
  }
  \<close>
  \<^verbatim>\<open>ReturnType\<close> is an integer type of width \<open>'a\<close> (floating-point return types are
  outside the model). The parameter \<open>run\<close> is the interpreter's own work, the sequence
  \<^verbatim>\<open>Reset(); InitFrame(function(), args); Run()\<close> on the arguments \<open>p\<close>; the accessor
  \<^verbatim>\<open>interpreter()\<close> has a \<^verbatim>\<open>DCHECK(interpret())\<close>. The conversion of the \<^verbatim>\<open>int64_t\<close>
  to \<^verbatim>\<open>ReturnType\<close> is a signed one.
\<close>

definition CallInterpreter ::
  "('p \<Rightarrow> 'a::len word WasmInterpreter \<Rightarrow> 'a word WasmInterpreter) \<Rightarrow> 'p
     \<Rightarrow> 'a word WasmRunnerBase \<Rightarrow> Globals
     \<Rightarrow> error + ('a word \<times> 'a word WasmRunnerBase \<times> Globals)" where
  "CallInterpreter run p r g =
     (case interpreter_m (builder_m r) of
        None \<Rightarrow> Inl DcheckFailed
      | Some i \<Rightarrow>
          let i' = run p i;
              r' = r\<lparr>builder_m := (builder_m r)\<lparr>interpreter_m := Some i'\<rparr>\<rparr>
          in if \<not> NumInterpretedCalls i' > 0 then Inl CheckFailed
             else if state i' = FINISHED
             then Inr (GetReturnValue i',
                       r'\<lparr>possible_nondeterminism_m :=
                            possible_nondeterminism_m r' \<or> PossibleNondeterminism i'\<rparr>,
                       g)
             else if state i' = TRAPPED
             then Inr (scast (0xDEADBEEFDEADBEEF :: 64 word), r', g)
             else Inr (0, r', g))"

text \<open>
  \<^verbatim>\<open>
  ReturnType Call(ParamTypes... p) {
    SaveContext save_context(main_isolate());

    DCHECK(compiled_);
    if (interpret()) return CallInterpreter(p...);

    ReturnType return_value = static_cast<ReturnType>(0xDEADBEEFDEADBEEF);
    SetUpTrapCallback();

    wrapper_.SetInnerCode(builder_.GetFunctionCode(main_fn_index_));
    wrapper_.SetInstance(builder_.instance_object());
    Handle<Code> wrapper_code = GetWrapperCode();
    compiler::CodeRunner<int32_t> runner(main_isolate(), wrapper_code,
                                         wrapper_.signature());
    int32_t result;
    {
      SetThreadInWasmFlag();

      result = runner.Call(static_cast<void*>(&p)...,
                           static_cast<void*>(&return_value));

      ClearThreadInWasmFlag();
    }
    CHECK_EQ(WASM_WRAPPER_RETURN_VALUE, result);
    return WasmRunnerBase::trap_happened
               ? static_cast<ReturnType>(0xDEADBEEFDEADBEEF)
               : return_value;
  }
  \<close>
  The parameter \<open>guest\<close> is \<^verbatim>\<open>runner.Call\<close>, the compiled wrapper around the code of
  the main function: it is given the arguments, the content of \<^verbatim>\<open>return_value\<close> and the
  global state, and it returns its \<^verbatim>\<open>int32_t\<close> result, the content of \<^verbatim>\<open>return_value\<close>
  afterwards and the global state afterwards. Guest code that traps changes the global
  state by \<open>signal_trap\<close>. The literal \<^verbatim>\<open>0xDEADBEEFDEADBEEF\<close> is unsigned.
\<close>

definition Call ::
  "('p \<Rightarrow> 'a word \<Rightarrow> Globals \<Rightarrow> 32 word \<times> 'a word \<times> Globals)
     \<Rightarrow> ('p \<Rightarrow> 'a::len word WasmInterpreter \<Rightarrow> 'a word WasmInterpreter) \<Rightarrow> 'p
     \<Rightarrow> 'a word WasmRunnerBase \<Rightarrow> Globals
     \<Rightarrow> error + ('a word \<times> 'a word WasmRunnerBase \<times> Globals)" where
  "Call guest run p r g =
     (if \<not> compiled_m r then Inl DcheckFailed
      else if interpret_fn (builder_m r) then CallInterpreter run p r g
      else
        let return_value = ucast (0xDEADBEEFDEADBEEF :: 64 word);
            g1 = SetUpTrapCallback g;
            g2 = SetThreadInWasmFlag g1;
            (result, return_value', g3) = guest p return_value g2;
            g4 = ClearThreadInWasmFlag g3
        in if WASM_WRAPPER_RETURN_VALUE \<noteq> result then Inl CheckFailed
           else Inr (if trap_happened g4 then ucast (0xDEADBEEFDEADBEEF :: 64 word)
                     else return_value',
                     r, g4))"

section \<open>Parts of the engine that the header only refers to\<close>

subsection \<open>Linear memory\<close>

text \<open>
  Modelled from the spec: loads and stores of linear memory (they are the work of the
  execution tiers, which are missing from the sources; the accessors
  \<^verbatim>\<open>raw_mem_at\<close> and \<^verbatim>\<open>raw_val_at\<close> of the builder are the test's own unchecked view of
  the buffer, not guest accesses). An access at address \<open>a\<close> of width \<open>w\<close> traps when
  \<open>a + w\<close> overflows the address type or exceeds the current size. Addresses and
  widths are machine integers of the address width \<open>'n\<close>, so \<open>a + w\<close> wraps, and the
  sum has overflowed exactly when it is below \<open>a\<close>; the current size is the length of
  the buffer.
\<close>

datatype TrapReason = kTrapMemOutOfBounds

definition access_traps :: "'n::len word \<Rightarrow> 'n word \<Rightarrow> nat \<Rightarrow> bool" where
  "access_traps a w current_size = (a + w < a \<or> current_size < unat (a + w))"

definition LoadMem :: "8 word list \<Rightarrow> 'n::len word \<Rightarrow> 'n word \<Rightarrow> TrapReason + 8 word list" where
  "LoadMem mem a w =
     (if access_traps a w (length mem) then Inl kTrapMemOutOfBounds
      else Inr (take (unat w) (drop (unat a) mem)))"

definition StoreMem ::
  "8 word list \<Rightarrow> 'n::len word \<Rightarrow> 'n word \<Rightarrow> 8 word list \<Rightarrow> TrapReason + 8 word list" where
  "StoreMem mem a w val =
     (if access_traps a w (length mem) then Inl kTrapMemOutOfBounds
      else Inr (take (unat a) mem @ take (unat w) val @ drop (unat a + unat w) mem))"

subsection \<open>Imports and the execution of guest code\<close>

text \<open>
  \<^verbatim>\<open>
  struct ManuallyImportedJSFunction {
    const FunctionSig* sig;
    Handle<JSFunction> js_function;
  };

  enum FunctionType { kImport, kWasm };
  \<close>
  The host function is what it computes on \<open>i32\<close> arguments.
\<close>

record ManuallyImportedJSFunction =
  sig :: FunctionSig
  js_function :: "32 word list \<Rightarrow> 32 word"

datatype FunctionType = kImport | kWasm

text \<open>
  Modelled from the spec: instantiation and the execution of guest code (the constructor
  of the builder, \<^verbatim>\<open>AddFunction\<close> and the execution tiers are missing from the sources). A module is its ordered function list; a function is an import or is defined by
  a body. Instantiation takes one host callable per declared import, in order, and checks
  its signature against the declared one: a missing or signature-mismatched import fails
  instantiation, and nothing else about the callable is looked at. Extra callables are
  ignored. The instance maps every function index to its code.
\<close>

datatype Instr = LocalGet nat | I32Const "32 word" | I32Add | I32Mul | CallFunction nat

record FunctionDecl =
  f_sig :: FunctionSig
  f_type :: FunctionType
  f_body :: "Instr list"

datatype InstantiationFailure = MissingImport | SignatureMismatch

datatype Code = HostCode "32 word list \<Rightarrow> 32 word" | GuestCode "Instr list"

fun Instantiate ::
  "FunctionDecl list \<Rightarrow> ManuallyImportedJSFunction list
     \<Rightarrow> InstantiationFailure + (FunctionSig \<times> Code) list" where
  "Instantiate [] hosts = Inr []"
| "Instantiate (f # fs) hosts =
     (case f_type f of
        kImport \<Rightarrow>
          (case hosts of
             [] \<Rightarrow> Inl MissingImport
           | h # hs \<Rightarrow>
               if sig h \<noteq> f_sig f then Inl SignatureMismatch
               else (case Instantiate fs hs of
                       Inl e \<Rightarrow> Inl e
                     | Inr inst \<Rightarrow> Inr ((f_sig f, HostCode (js_function h)) # inst)))
      | kWasm \<Rightarrow>
          (case Instantiate fs hosts of
             Inl e \<Rightarrow> Inl e
           | Inr inst \<Rightarrow> Inr ((f_sig f, GuestCode (f_body f)) # inst)))"

text \<open>
  Modelled from the spec: the interpreter tier, an operand-stack machine. Each activation
  holds the rest of its body (the program counter), its locals and its operand stack; the
  outcome of an invocation is \<open>Returned\<close>, \<open>Trapped\<close> or \<open>Exhausted\<close>. One step
  executes one instruction of the topmost activation; at the end of a body the value on
  top of the operand stack goes to the caller. A call pops the arguments, and either
  applies the bound host callable or pushes an activation of the callee. Code that a
  validator would have rejected (a missing operand, local or function) traps. The budget
  is checked once per executed instruction.
\<close>

datatype Outcome = Returned "32 word" | Trapped | Exhausted

record Frame =
  fr_code :: "Instr list"
  fr_locals :: "32 word list"
  fr_stack :: "32 word list"

datatype StepResult = Continue "Frame list" | Done Outcome

fun step :: "(FunctionSig \<times> Code) list \<Rightarrow> Frame list \<Rightarrow> StepResult" where
  "step inst [] = Done Trapped"
| "step inst (fr # frs) =
     (case fr_code fr of
        [] \<Rightarrow>
          (case fr_stack fr of
             [] \<Rightarrow> Done Trapped
           | v # _ \<Rightarrow>
               (case frs of
                  [] \<Rightarrow> Done (Returned v)
                | caller # rest \<Rightarrow>
                    Continue (caller\<lparr>fr_stack := v # fr_stack caller\<rparr> # rest)))
      | LocalGet i # is \<Rightarrow>
          if i < length (fr_locals fr)
          then Continue (fr\<lparr>fr_code := is, fr_stack := fr_locals fr ! i # fr_stack fr\<rparr> # frs)
          else Done Trapped
      | I32Const c # is \<Rightarrow>
          Continue (fr\<lparr>fr_code := is, fr_stack := c # fr_stack fr\<rparr> # frs)
      | I32Add # is \<Rightarrow>
          (case fr_stack fr of
             y # x # st \<Rightarrow> Continue (fr\<lparr>fr_code := is, fr_stack := (x + y) # st\<rparr> # frs)
           | _ \<Rightarrow> Done Trapped)
      | I32Mul # is \<Rightarrow>
          (case fr_stack fr of
             y # x # st \<Rightarrow> Continue (fr\<lparr>fr_code := is, fr_stack := (x * y) # st\<rparr> # frs)
           | _ \<Rightarrow> Done Trapped)
      | CallFunction k # is \<Rightarrow>
          if length inst \<le> k then Done Trapped
          else
            let (callee_sig, callee) = inst ! k;
                n = length (parameters callee_sig)
            in if length (fr_stack fr) < n then Done Trapped
               else
                 let args = rev (take n (fr_stack fr));
                     fr' = fr\<lparr>fr_code := is, fr_stack := drop n (fr_stack fr)\<rparr>
                 in (case callee of
                       HostCode f \<Rightarrow> Continue (fr'\<lparr>fr_stack := f args # fr_stack fr'\<rparr> # frs)
                     | GuestCode body \<Rightarrow>
                         Continue (\<lparr>fr_code = body, fr_locals = args, fr_stack = []\<rparr>
                                   # fr' # frs)))"

fun run_steps :: "nat \<Rightarrow> (FunctionSig \<times> Code) list \<Rightarrow> Frame list \<Rightarrow> Outcome" where
  "run_steps 0 inst frames = Exhausted"
| "run_steps (Suc budget) inst frames =
     (case step inst frames of
        Done outcome \<Rightarrow> outcome
      | Continue frames' \<Rightarrow> run_steps budget inst frames')"

definition invoke :: "nat \<Rightarrow> (FunctionSig \<times> Code) list \<Rightarrow> nat \<Rightarrow> 32 word list \<Rightarrow> Outcome" where
  "invoke budget inst k args =
     (if length inst \<le> k then Trapped
      else
        let (callee_sig, callee) = inst ! k
        in if length args \<noteq> length (parameters callee_sig) then Trapped
           else (case callee of
                   HostCode f \<Rightarrow> Returned (f args)
                 | GuestCode body \<Rightarrow>
                     run_steps budget inst [\<lparr>fr_code = body, fr_locals = args, fr_stack = []\<rparr>]))"

section \<open>Example inputs\<close>

definition sig_i_i :: FunctionSig where
  "sig_i_i = \<lparr>returns = [kWasmI32], parameters = [kWasmI32]\<rparr>"

definition sig_i_ii :: FunctionSig where
  "sig_i_ii = \<lparr>returns = [kWasmI32], parameters = [kWasmI32, kWasmI32]\<rparr>"

definition empty_module :: WasmModule where
  "empty_module = \<lparr>types = [], canonicalized_type_ids = [], signature_map = []\<rparr>"

text \<open>A builder with an empty module and one function compiled by the optimizing tier.\<close>

definition example_builder :: "'v WasmInterpreter option \<Rightarrow> TestExecutionTier \<Rightarrow> 'v TestingModuleBuilder" where
  "example_builder interp tier =
     \<lparr>test_module_m = empty_module,
      interpreter_m = interp,
      execution_tier_m = tier,
      native_module_m = \<lparr>tiering_state = kTieredUp, code_table = [ExecutionTier.kTurbofan]\<rparr>,
      max_steps_m = 0\<rparr>"

text \<open>A builder whose module has one type.\<close>

definition one_sig_builder :: "'v TestingModuleBuilder" where
  "one_sig_builder =
     (example_builder None TestExecutionTier.kTurbofan)
       \<lparr>test_module_m := \<lparr>types = [sig_i_i],
                          canonicalized_type_ids = [0],
                          signature_map = [sig_i_i]\<rparr>\<rparr>"

text \<open>A builder whose module has 126 types already.\<close>

definition full_builder :: "'v TestingModuleBuilder" where
  "full_builder =
     (example_builder None TestExecutionTier.kTurbofan)
       \<lparr>test_module_m := \<lparr>types = replicate 126 sig_i_i,
                          canonicalized_type_ids = replicate 126 0,
                          signature_map = [sig_i_i]\<rparr>\<rparr>"

definition example_runner :: "'v WasmInterpreter option \<Rightarrow> TestExecutionTier \<Rightarrow> 'v WasmRunnerBase" where
  "example_runner interp tier =
     \<lparr>builder_m = example_builder interp tier,
      compiled_m = True,
      possible_nondeterminism_m = False\<rparr>"

definition initial_globals :: Globals where
  "initial_globals = \<lparr>trap_happened = False, trap_callback = False, thread_in_wasm = False\<rparr>"

text \<open>An interpreter that has not run yet, and three runs: one that finishes with a value
  and an observation, one that traps, one that is suspended with its budget exhausted.\<close>

definition fresh_interpreter :: "'a::len word WasmInterpreter" where
  "fresh_interpreter =
     \<lparr>state = STOPPED, NumInterpretedCalls = 0, GetReturnValue = 0,
      PossibleNondeterminism = False\<rparr>"

definition run_finishing ::
  "'a::len word \<Rightarrow> bool \<Rightarrow> unit \<Rightarrow> 'a word WasmInterpreter \<Rightarrow> 'a word WasmInterpreter" where
  "run_finishing v nondet p i =
     \<lparr>state = FINISHED, NumInterpretedCalls = NumInterpretedCalls i + 1, GetReturnValue = v,
      PossibleNondeterminism = nondet\<rparr>"

definition run_trapping :: "unit \<Rightarrow> 'a::len word WasmInterpreter \<Rightarrow> 'a word WasmInterpreter" where
  "run_trapping p i =
     \<lparr>state = TRAPPED, NumInterpretedCalls = NumInterpretedCalls i + 1, GetReturnValue = 0,
      PossibleNondeterminism = False\<rparr>"

definition run_exhausted :: "unit \<Rightarrow> 'a::len word WasmInterpreter \<Rightarrow> 'a word WasmInterpreter" where
  "run_exhausted p i =
     \<lparr>state = PAUSED, NumInterpretedCalls = NumInterpretedCalls i + 1, GetReturnValue = 0,
      PossibleNondeterminism = False\<rparr>"


definition guest_trapping ::
  "unit \<Rightarrow> 'a::len word \<Rightarrow> Globals \<Rightarrow> 32 word \<times> 'a word \<times> Globals" where
  "guest_trapping p return_value g = (WASM_WRAPPER_RETURN_VALUE, return_value, signal_trap g)"

text \<open>Compiled code that returns the thread-in-wasm flag it runs under.\<close>

definition guest_reading_flag ::
  "unit \<Rightarrow> 'a::len word \<Rightarrow> Globals \<Rightarrow> 32 word \<times> 'a word \<times> Globals" where
  "guest_reading_flag p return_value g =
     (WASM_WRAPPER_RETURN_VALUE, if thread_in_wasm g then 1 else 0, g)"

text \<open>
  Scenario A of the spec: the import \<open>mul(i32,i32)->i32\<close> is function 0, the defined
  \<open>main(i32)->i32 = mul(x,x)\<close> is function 1; the host binds \<open>mul\<close> to a function that
  adds.
\<close>

definition scenario_A_module :: "FunctionDecl list" where
  "scenario_A_module =
     [\<lparr>f_sig = sig_i_ii, f_type = kImport, f_body = []\<rparr>,
      \<lparr>f_sig = sig_i_i, f_type = kWasm, f_body = [LocalGet 0, LocalGet 0, CallFunction 0]\<rparr>]"

definition host_add :: ManuallyImportedJSFunction where
  "host_add =
     \<lparr>sig = sig_i_ii,
      js_function = (\<lambda>args. case args of [x, y] \<Rightarrow> x + y | _ \<Rightarrow> 0)\<rparr>"

text \<open>The runner after a call whose interpreter run finished with the value 1 and observed
  possible nondeterminism.\<close>

definition nd_runner :: "32 word WasmRunnerBase" where
  "nd_runner =
     (example_runner
        (Some \<lparr>state = FINISHED, NumInterpretedCalls = 1, GetReturnValue = 1,
               PossibleNondeterminism = True\<rparr>)
        TestExecutionTier.kInterpreter)
       \<lparr>possible_nondeterminism_m := True\<rparr>"

text \<open>A host function of the same signature that multiplies.\<close>

definition host_mul :: ManuallyImportedJSFunction where
  "host_mul =
     \<lparr>sig = sig_i_ii,
      js_function = (\<lambda>args. case args of [x, y] \<Rightarrow> x * y | _ \<Rightarrow> 0)\<rparr>"

section \<open>Properties\<close>

subsection \<open>The type table\<close>

lemma length_types_add_signature:
  "length (types (add_signature s m)) = Suc (length (types m))"
  by (simp add: add_signature_def split: prod.splits)

lemma length_ids_add_signature:
  "length (canonicalized_type_ids (add_signature s m)) = Suc (length (canonicalized_type_ids m))"
  by (simp add: add_signature_def split: prod.splits)

lemma Find_Some: "Find s m = Some k \<Longrightarrow> k < length m \<and> m ! k = s"
  by (induction m arbitrary: k) (auto split: if_splits)

lemma Find_append: "Find s m = Some k \<Longrightarrow> Find s (m @ xs) = Some k"
  by (induction m arbitrary: k) (auto split: if_splits)

lemma Find_snoc: "Find s m = None \<Longrightarrow> Find s (m @ [s]) = Some (length m)"
  by (induction m) (auto split: if_splits)

lemma FindOrInsert_finds: "FindOrInsert s m = (k, m') \<Longrightarrow> Find s m' = Some k"
  by (auto simp: FindOrInsert_def Find_snoc split: option.splits)

lemma FindOrInsert_keeps:
  "FindOrInsert s m = (k, m') \<Longrightarrow> Find t m = Some j \<Longrightarrow> Find t m' = Some j"
  by (auto simp: FindOrInsert_def Find_append split: option.splits)

lemma wf_module_iff:
  "wf_module m \<longleftrightarrow>
     length (types m) = length (canonicalized_type_ids m) \<and>
     (\<forall>k < length (types m).
        Find (types m ! k) (signature_map m) = Some (canonicalized_type_ids m ! k))"
  by (simp add: wf_module_def list_all2_conv_all_nth)

lemma wf_module_empty: "wf_module empty_module"
  by (simp add: wf_module_def empty_module_def)

lemma wf_module_add_signature:
  assumes "wf_module m"
  shows "wf_module (add_signature s m)"
proof -
  obtain k sm where fi: "FindOrInsert s (signature_map m) = (k, sm)"
    by (cases "FindOrInsert s (signature_map m)")
  have m': "add_signature s m =
      m\<lparr>types := types m @ [s],
        canonicalized_type_ids := canonicalized_type_ids m @ [k], signature_map := sm\<rparr>"
    by (simp add: add_signature_def fi)
  have len: "length (types m) = length (canonicalized_type_ids m)"
    using assms by (simp add: wf_module_iff)
  have "Find ((types m @ [s]) ! j) sm = Some ((canonicalized_type_ids m @ [k]) ! j)"
    if "j < Suc (length (types m))" for j
  proof (cases "j < length (types m)")
    case True
    then have "Find (types m ! j) (signature_map m) = Some (canonicalized_type_ids m ! j)"
      using assms by (simp add: wf_module_iff)
    then show ?thesis using True len FindOrInsert_keeps [OF fi] by (simp add: nth_append)
  next
    case False
    then have "j = length (types m)" using that by simp
    then show ?thesis using len FindOrInsert_finds [OF fi] by (simp add: nth_append)
  qed
  then show ?thesis using len by (simp add: wf_module_iff m')
qed

lemma add_signature_canonical:
  assumes "wf_module m" "i < length (types m)" "types m ! i = s"
  shows "canonicalized_type_ids (add_signature s m) ! length (types m)
           = canonicalized_type_ids m ! i"
proof -
  have "Find s (signature_map m) = Some (canonicalized_type_ids m ! i)"
    using assms by (auto simp: wf_module_iff)
  then show ?thesis using assms(1)
    by (simp add: add_signature_def FindOrInsert_def wf_module_iff nth_append)
qed

lemma AddSignature_Inr:
  assumes "AddSignature s b = Inr (j, b')"
  shows "test_module_m b' = add_signature s (test_module_m b)"
    and "length (types (test_module_m b)) = length (canonicalized_type_ids (test_module_m b))"
    and "length (types (test_module_m b)) < 126"
    and "unat j = length (types (test_module_m b))"
proof -
  show len: "length (types (test_module_m b)) = length (canonicalized_type_ids (test_module_m b))"
    using assms by (auto simp: AddSignature_def AddSignature_with_def split: if_splits)
  show "test_module_m b' = add_signature s (test_module_m b)"
    using assms by (auto simp: AddSignature_def AddSignature_with_def Let_def split: if_splits)
  show n: "length (types (test_module_m b)) < 126"
    using assms len
    by (auto simp: AddSignature_def AddSignature_with_def Let_def length_types_add_signature
        split: if_splits)
  have "(Suc (length (types (test_module_m b))) + 2 ^ 64 - 1) mod 2 ^ 64
          = length (types (test_module_m b))"
    using n by simp
  moreover have "unat (of_nat (length (types (test_module_m b))) :: 8 word)
          = length (types (test_module_m b))"
    using n by (simp add: unat_of_nat)
  ultimately show "unat j = length (types (test_module_m b))"
    using assms len n
    by (auto simp: AddSignature_def AddSignature_with_def Let_def length_types_add_signature
        split: if_splits)
qed

text \<open>
  C10. \<^verbatim>\<open>AddSignature\<close> has a capacity limit: on a module whose two vectors are of equal
  length (the \<^verbatim>\<open>DCHECK_EQ\<close>), the call aborts with a failed \<^verbatim>\<open>CHECK\<close> when the signature
  would be the 127th type or a later one; otherwise it succeeds, the module has one type
  more, the returned index is the new number of types minus one and it is below 126, so
  that the cast to a byte loses nothing.
\<close>

theorem AddSignature_capacity:
  assumes "length (types (test_module_m b)) = length (canonicalized_type_ids (test_module_m b))"
  shows "if 127 \<le> length (types (test_module_m b)) + 1
         then AddSignature s b = Inl CheckFailed
         else \<exists>idx b'. AddSignature s b = Inr (idx, b')
                \<and> unat idx < 126
                \<and> length (types (test_module_m b')) = length (types (test_module_m b)) + 1
                \<and> unat idx = length (types (test_module_m b')) - 1
                \<and> length (types (test_module_m b'))
                    = length (canonicalized_type_ids (test_module_m b'))"
proof (cases "127 \<le> length (types (test_module_m b)) + 1")
  case True
  then show ?thesis using assms
    by (simp add: AddSignature_def AddSignature_with_def length_types_add_signature Let_def)
next
  case False
  let ?n = "length (types (test_module_m b))"
  from False have n: "?n < 126" by simp
  have "(Suc ?n + 2 ^ 64 - 1) mod 2 ^ 64 = ?n" using n by simp
  moreover have "unat (of_nat ?n :: 8 word) = ?n" using n by (simp add: unat_of_nat)
  ultimately show ?thesis using False assms n
    by (simp add: AddSignature_def AddSignature_with_def length_types_add_signature
        length_ids_add_signature Let_def)
qed


theorem AddSignature_capacity_witness:
  "(\<exists>idx b'. AddSignature sig_i_i (example_builder None TestExecutionTier.kTurbofan :: unit TestingModuleBuilder) = Inr (idx, b')
      \<and> unat idx < 126
      \<and> length (types (test_module_m b')) = 1
      \<and> unat idx = length (types (test_module_m b')) - 1
      \<and> length (types (test_module_m b')) = length (canonicalized_type_ids (test_module_m b')))
   \<and> AddSignature sig_i_i (full_builder :: unit TestingModuleBuilder) = Inl CheckFailed"
  using AddSignature_capacity [of "example_builder None TestExecutionTier.kTurbofan :: unit TestingModuleBuilder" sig_i_i]
    AddSignature_capacity [of "full_builder :: unit TestingModuleBuilder" sig_i_i]
  by (simp add: example_builder_def full_builder_def empty_module_def)

text \<open>
  C7, as the spec states it, fails: \<^verbatim>\<open>AddSignature\<close> returns \<^verbatim>\<open>size - 1\<close>, the index of
  the last type, whatever the signature. Adding \<open>(i32)->i32\<close>, \<open>(i32,i32)->i32\<close> and
  \<open>(i32)->i32\<close> again to an empty module returns the indices 0, 1 and 2: the third call
  does not return the index 0 of the equal signature. It would not either if the module
  kept one entry per distinct signature: the third call would then return 1.
\<close>

theorem AddSignature_dedup_counterexample:
  "map_sum id fst (AddSignatures_with add_signature [sig_i_i, sig_i_ii, sig_i_i]
      (example_builder None TestExecutionTier.kTurbofan :: unit TestingModuleBuilder))
     = Inr [0, 1, 2]
   \<and> map_sum id fst (AddSignatures_with add_signature_dedup [sig_i_i, sig_i_ii, sig_i_i]
      (example_builder None TestExecutionTier.kTurbofan :: unit TestingModuleBuilder))
     = Inr [0, 1, 1]"
  by (simp add: AddSignature_with_def add_signature_def add_signature_dedup_def
      FindOrInsert_def example_builder_def empty_module_def sig_i_i_def sig_i_ii_def)

text \<open>
  C7, amended. On a well-formed module, every successful \<^verbatim>\<open>AddSignature\<close> adds an entry
  to the type table and returns the index of that new entry, which is the former number
  of types, so it differs from every index returned before; the entry holds the
  signature and the earlier entries are unchanged. Structural comparison decides the
  canonical id only: the id recorded for the new entry is the id of every earlier entry
  with a structurally equal signature. The module stays well formed.
\<close>

theorem AddSignature_fresh_index:
  assumes "wf_module (test_module_m b)" and "AddSignature s b = Inr (j, b')"
  shows "unat j = length (types (test_module_m b))
       \<and> length (types (test_module_m b')) = length (types (test_module_m b)) + 1
       \<and> types (test_module_m b') ! unat j = s
       \<and> (\<forall>i < unat j. types (test_module_m b') ! i = types (test_module_m b) ! i)
       \<and> (\<forall>i < unat j. types (test_module_m b') ! i = s \<longrightarrow>
            canonicalized_type_ids (test_module_m b') ! i
              = canonicalized_type_ids (test_module_m b') ! unat j)
       \<and> wf_module (test_module_m b')"
proof -
  let ?m = "test_module_m b"
  note r = AddSignature_Inr [OF assms(2)]
  have len: "length (types ?m) = length (canonicalized_type_ids ?m)" by (rule r(2))
  have j: "unat j = length (types ?m)" by (rule r(4))
  have m': "test_module_m b' = add_signature s ?m" by (rule r(1))
  have t: "types (add_signature s ?m) = types ?m @ [s]"
    by (simp add: add_signature_def split: prod.splits)
  have ids: "canonicalized_type_ids (add_signature s ?m) ! i = canonicalized_type_ids ?m ! i"
    if "i < length (types ?m)" for i
    using that len by (simp add: add_signature_def nth_append split: prod.splits)
  have c1: "length (types (test_module_m b')) = length (types ?m) + 1"
    by (simp add: m' t)
  have c2: "types (test_module_m b') ! unat j = s"
    by (simp add: m' t j)
  have c3: "\<forall>i < unat j. types (test_module_m b') ! i = types ?m ! i"
    by (simp add: m' t j nth_append)
  have c4: "canonicalized_type_ids (test_module_m b') ! i
              = canonicalized_type_ids (test_module_m b') ! unat j"
    if "i < unat j" "types (test_module_m b') ! i = s" for i
  proof -
    have i: "i < length (types ?m)" using that(1) j by simp
    then have "types ?m ! i = s" using that(2) by (simp add: m' t nth_append)
    from add_signature_canonical [OF assms(1) i this] ids [OF i]
    show ?thesis by (simp add: m' j)
  qed
  have c5: "wf_module (test_module_m b')"
    using wf_module_add_signature [OF assms(1), of s] by (simp add: m')
  from j c1 c2 c3 c4 c5 show ?thesis by blast
qed

theorem AddSignature_fresh_index_witness:
  "wf_module (test_module_m (one_sig_builder :: unit TestingModuleBuilder))
   \<and> AddSignature sig_i_i (one_sig_builder :: unit TestingModuleBuilder)
       = Inr (1, one_sig_builder\<lparr>test_module_m :=
                   \<lparr>types = [sig_i_i, sig_i_i], canonicalized_type_ids = [0, 0],
                    signature_map = [sig_i_i]\<rparr>\<rparr>)
   \<and> unat (1 :: 8 word) = length (types (test_module_m (one_sig_builder :: unit TestingModuleBuilder)))
   \<and> canonicalized_type_ids \<lparr>types = [sig_i_i, sig_i_i], canonicalized_type_ids = [0, 0],
                    signature_map = [sig_i_i]\<rparr> ! 0
      = canonicalized_type_ids \<lparr>types = [sig_i_i, sig_i_i], canonicalized_type_ids = [0, 0],
                    signature_map = [sig_i_i]\<rparr> ! unat (1 :: 8 word)"
proof -
  let ?b = "one_sig_builder :: unit TestingModuleBuilder"
  let ?m' = "\<lparr>types = [sig_i_i, sig_i_i], canonicalized_type_ids = [0, 0],
                    signature_map = [sig_i_i]\<rparr>"
  have h1: "wf_module (test_module_m ?b)"
    by (simp add: wf_module_iff one_sig_builder_def)
  have h2: "AddSignature sig_i_i ?b = Inr (1, ?b\<lparr>test_module_m := ?m'\<rparr>)"
    by (simp add: AddSignature_def AddSignature_with_def add_signature_def FindOrInsert_def
        one_sig_builder_def)
  from AddSignature_fresh_index [OF h1 h2] h1 h2 show ?thesis by (simp add: one_sig_builder_def)
qed

subsection \<open>The trap sentinel\<close>

lemma sentinel_scast_ucast:
  assumes "LENGTH('a::len) \<le> 64"
  shows "(scast (w :: 64 word) :: 'a word) = ucast w"
proof (rule bit_word_eqI)
  fix n assume n: "n < LENGTH('a)"
  then have "min 63 n = n" using assms by simp
  then show "bit (scast w :: 'a word) n = bit (ucast w :: 'a word) n"
    using n by (simp add: bit_ucast_iff bit_signed_iff)
qed

lemma sentinel_32: "(ucast (0xDEADBEEFDEADBEEF :: 64 word) :: 32 word) = 0xDEADBEEF"
  by simp

lemma sentinel_nonzero: "(scast (0xDEADBEEFDEADBEEF :: 64 word) :: 'a::len word) \<noteq> 0"
proof
  assume e: "(scast (0xDEADBEEFDEADBEEF :: 64 word) :: 'a word) = 0"
  have "bit (scast (0xDEADBEEFDEADBEEF :: 64 word) :: 'a word) 0"
    by (simp add: bit_signed_iff)
  then show False unfolding e by simp
qed

lemma sentinel_nonzero_u: "(ucast (0xDEADBEEFDEADBEEF :: 64 word) :: 'a::len word) \<noteq> 0"
proof
  assume e: "(ucast (0xDEADBEEFDEADBEEF :: 64 word) :: 'a word) = 0"
  have "bit (ucast (0xDEADBEEFDEADBEEF :: 64 word) :: 'a word) 0"
    by (simp add: bit_ucast_iff)
  then show False unfolding e by simp
qed

lemma CHECK_TRAP32_sentinel: "CHECK_TRAP32 (ucast (0xDEADBEEFDEADBEEF :: 64 word)) = Inr ()"
  by (simp add: CHECK_TRAP32_def)

lemma CHECK_TRAP64_sentinel: "CHECK_TRAP64 (ucast (0xDEADBEEFDEADBEEF :: 64 word)) = Inr ()"
  by (simp add: CHECK_TRAP64_def)

subsection \<open>The call bridge\<close>

lemma Call_compiled:
  assumes "compiled_m r" "\<not> interpret_fn (builder_m r)"
    and "guest p (ucast (0xDEADBEEFDEADBEEF :: 64 word)) (SetThreadInWasmFlag (SetUpTrapCallback g))
           = (result, return_value, g')"
  shows "Call guest run p r g =
           (if WASM_WRAPPER_RETURN_VALUE \<noteq> result then Inl CheckFailed
            else Inr (if trap_happened g' then ucast (0xDEADBEEFDEADBEEF :: 64 word)
                      else return_value,
                      r, ClearThreadInWasmFlag g'))"
  using assms by (simp add: Call_def ClearThreadInWasmFlag_def)

lemma Call_interpreted:
  assumes "compiled_m r" "interpret_fn (builder_m r)"
  shows "Call guest run p r g = CallInterpreter run p r g"
  using assms by (simp add: Call_def)

lemma CallInterpreter_Some:
  assumes "interpreter_m (builder_m r) = Some i"
  shows "CallInterpreter run p r g =
     (let i' = run p i;
          r' = r\<lparr>builder_m := (builder_m r)\<lparr>interpreter_m := Some i'\<rparr>\<rparr>
      in if \<not> NumInterpretedCalls i' > 0 then Inl CheckFailed
         else if state i' = FINISHED
         then Inr (GetReturnValue i',
                   r'\<lparr>possible_nondeterminism_m :=
                        possible_nondeterminism_m r \<or> PossibleNondeterminism i'\<rparr>,
                   g)
         else if state i' = TRAPPED
         then Inr (scast (0xDEADBEEFDEADBEEF :: 64 word), r', g)
         else Inr (0, r', g))"
  using assms by (simp add: CallInterpreter_def Let_def)

lemma Call_Inr_runner:
  assumes "Call guest run p r g = Inr (v, r', g')"
  shows "case interpreter_m (builder_m r) of
           None \<Rightarrow> r' = r
         | Some i \<Rightarrow>
             r' = r\<lparr>builder_m := (builder_m r)\<lparr>interpreter_m := Some (run p i)\<rparr>,
                    possible_nondeterminism_m :=
                      possible_nondeterminism_m r
                      \<or> (state (run p i) = FINISHED \<and> PossibleNondeterminism (run p i))\<rparr>"
proof -
  obtain result return_value g3 where
    gu: "guest p (ucast (0xDEADBEEFDEADBEEF :: 64 word)) (SetThreadInWasmFlag (SetUpTrapCallback g))
           = (result, return_value, g3)"
    by (metis prod_cases3)
  have c: "compiled_m r" using assms by (auto simp: Call_def split: if_splits)
  show ?thesis
  proof (cases "interpreter_m (builder_m r)")
    case None
    then have "\<not> interpret_fn (builder_m r)" by (simp add: interpret_fn_def)
    from Call_compiled [where guest = guest and p = p and g = g and run = run, OF c this gu]
    have "r' = r" using assms by (auto split: if_splits)
    then show ?thesis using None by simp
  next
    case (Some i)
    then have "interpret_fn (builder_m r)" by (simp add: interpret_fn_def)
    then have "CallInterpreter run p r g = Inr (v, r', g')"
      using Call_interpreted [OF c, of guest run p g] assms by simp
    then show ?thesis
      unfolding CallInterpreter_Some [OF Some] Let_def using Some
      by (auto split: if_splits)
  qed
qed




text \<open>
  C3, as the spec states it, fails: \<^verbatim>\<open>CallInterpreter\<close> returns \<^verbatim>\<open>ReturnType{0}\<close> for a
  run that is neither finished nor trapped, which is also what a run that finishes with
  the value 0 returns.
\<close>

theorem CallInterpreter_exhausted_counterexample:
  "map_sum id fst (CallInterpreter run_exhausted ()
      (example_runner (Some fresh_interpreter) TestExecutionTier.kInterpreter :: 32 word WasmRunnerBase)
      initial_globals) = Inr 0
   \<and> map_sum id fst (CallInterpreter (run_finishing 0 False) ()
      (example_runner (Some fresh_interpreter) TestExecutionTier.kInterpreter :: 32 word WasmRunnerBase)
      initial_globals) = Inr 0"
  by (simp add: CallInterpreter_def example_runner_def example_builder_def
      fresh_interpreter_def run_finishing_def run_exhausted_def Let_def)


text \<open>
  C3, amended. When the interpreter's run ends in a state that is neither \<^verbatim>\<open>FINISHED\<close>
  nor \<^verbatim>\<open>TRAPPED\<close>, as when the step budget is exhausted, the call returns
  \<^verbatim>\<open>ReturnType{0}\<close> and leaves the interpreter in that state: the value differs from the
  trap sentinel, of either tier, and the state tells the run from a finished and from a
  trapped one.
\<close>

theorem CallInterpreter_not_finished:
  assumes "interpreter_m (builder_m r) = Some i"
    and "0 < NumInterpretedCalls (run p i)"
    and "state (run p i) \<noteq> FINISHED" and "state (run p i) \<noteq> TRAPPED"
  shows "CallInterpreter run p r g
           = Inr (0, r\<lparr>builder_m := (builder_m r)\<lparr>interpreter_m := Some (run p i)\<rparr>\<rparr>, g)
       \<and> (0 :: 'a::len word) \<noteq> scast (0xDEADBEEFDEADBEEF :: 64 word)
       \<and> (0 :: 'a word) \<noteq> ucast (0xDEADBEEFDEADBEEF :: 64 word)"
  using assms(2-4) sentinel_nonzero [where 'a='a] sentinel_nonzero_u [where 'a='a]
  by (simp add: CallInterpreter_Some [OF assms(1)] Let_def)

theorem CallInterpreter_not_finished_witness:
  "CallInterpreter run_exhausted ()
      (example_runner (Some fresh_interpreter) TestExecutionTier.kInterpreter :: 32 word WasmRunnerBase)
      initial_globals
     = Inr (0, (example_runner (Some fresh_interpreter) TestExecutionTier.kInterpreter)
                 \<lparr>builder_m := (builder_m (example_runner (Some fresh_interpreter)
                                   TestExecutionTier.kInterpreter))
                    \<lparr>interpreter_m := Some (run_exhausted () fresh_interpreter)\<rparr>\<rparr>,
            initial_globals)
   \<and> (0 :: 32 word) \<noteq> scast (0xDEADBEEFDEADBEEF :: 64 word)
   \<and> state (run_exhausted () (fresh_interpreter :: 32 word WasmInterpreter)) = PAUSED"
proof -
  let ?r = "example_runner (Some fresh_interpreter) TestExecutionTier.kInterpreter :: 32 word WasmRunnerBase"
  have i: "interpreter_m (builder_m ?r) = Some fresh_interpreter"
    by (simp add: example_runner_def example_builder_def)
  have n: "0 < NumInterpretedCalls (run_exhausted () (fresh_interpreter :: 32 word WasmInterpreter))"
    by (simp add: run_exhausted_def fresh_interpreter_def)
  have s: "state (run_exhausted () (fresh_interpreter :: 32 word WasmInterpreter)) \<noteq> FINISHED"
    "state (run_exhausted () (fresh_interpreter :: 32 word WasmInterpreter)) \<noteq> TRAPPED"
    by (simp_all add: run_exhausted_def)
  have p: "state (run_exhausted () (fresh_interpreter :: 32 word WasmInterpreter)) = PAUSED"
    by (simp add: run_exhausted_def)
  from CallInterpreter_not_finished [where run = run_exhausted and p = "()"
      and g = initial_globals, OF i n s] p
  show ?thesis by blast
qed

text \<open>
  C4. On a compiled tier the guest runs with the thread-in-wasm flag set: the call depends
  on the guest's behaviour in states with the flag set only. Whenever the call returns,
  after a normal return of the guest or after a trap, the flag is cleared.
\<close>

theorem Call_thread_in_wasm_flag:
  assumes "compiled_m r" "\<not> interpret_fn (builder_m r)"
  shows "(\<forall>guest'. (\<forall>q v h. thread_in_wasm h \<longrightarrow> guest' q v h = guest q v h)
            \<longrightarrow> Call guest' run p r g = Call guest run p r g)
       \<and> (\<forall>v r' g'. Call guest run p r g = Inr (v, r', g') \<longrightarrow> \<not> thread_in_wasm g')"
proof (intro conjI allI impI)
  fix guest'
  assume a: "\<forall>q v h. thread_in_wasm h \<longrightarrow> guest' q v h = guest q v h"
  have "thread_in_wasm (SetThreadInWasmFlag (SetUpTrapCallback g))"
    by (simp add: SetThreadInWasmFlag_def)
  with a have "guest' p (ucast (0xDEADBEEFDEADBEEF :: 64 word)) (SetThreadInWasmFlag (SetUpTrapCallback g))
      = guest p (ucast (0xDEADBEEFDEADBEEF :: 64 word)) (SetThreadInWasmFlag (SetUpTrapCallback g))"
    by blast
  then show "Call guest' run p r g = Call guest run p r g"
    using assms by (simp add: Call_def)
next
  fix v r' g'
  assume c: "Call guest run p r g = Inr (v, r', g')"
  obtain result return_value g3 where
    gu: "guest p (ucast (0xDEADBEEFDEADBEEF :: 64 word)) (SetThreadInWasmFlag (SetUpTrapCallback g))
           = (result, return_value, g3)"
    by (metis prod_cases3)
  from c have "g' = ClearThreadInWasmFlag g3"
    by (simp add: Call_compiled [where guest = guest and p = p and g = g, OF assms gu] split: if_splits)
  then show "\<not> thread_in_wasm g'" by (simp add: ClearThreadInWasmFlag_def)
qed

theorem Call_thread_in_wasm_flag_witness:
  "Call (\<lambda>q v h. (WASM_WRAPPER_RETURN_VALUE, 1, h)) run_trapping ()
      (example_runner None TestExecutionTier.kTurbofan :: 32 word WasmRunnerBase) initial_globals
     = Call guest_reading_flag run_trapping ()
      (example_runner None TestExecutionTier.kTurbofan) initial_globals
   \<and> Call guest_reading_flag run_trapping ()
      (example_runner None TestExecutionTier.kTurbofan :: 32 word WasmRunnerBase) initial_globals
     = Inr (1, example_runner None TestExecutionTier.kTurbofan,
            \<lparr>trap_happened = False, trap_callback = True, thread_in_wasm = False\<rparr>)
   \<and> \<not> thread_in_wasm \<lparr>trap_happened = False, trap_callback = True, thread_in_wasm = False\<rparr>"
proof -
  let ?r = "example_runner None TestExecutionTier.kTurbofan :: 32 word WasmRunnerBase"
  have c: "compiled_m ?r" by (simp add: example_runner_def)
  have n: "\<not> interpret_fn (builder_m ?r)"
    by (simp add: example_runner_def example_builder_def interpret_fn_def)
  have h: "Call guest_reading_flag run_trapping () ?r initial_globals
     = Inr (1, ?r, \<lparr>trap_happened = False, trap_callback = True, thread_in_wasm = False\<rparr>)"
    using c n
    by (simp add: Call_def guest_reading_flag_def SetUpTrapCallback_def SetThreadInWasmFlag_def
        ClearThreadInWasmFlag_def initial_globals_def)
  note t = Call_thread_in_wasm_flag [OF c n, where guest = guest_reading_flag
      and run = run_trapping and p = "()" and g = initial_globals]
  have 1: "Call (\<lambda>q v h. (WASM_WRAPPER_RETURN_VALUE, 1, h)) run_trapping () ?r initial_globals
     = Call guest_reading_flag run_trapping () ?r initial_globals"
    by (rule t [THEN conjunct1, rule_format]) (simp add: guest_reading_flag_def)
  have 2: "\<not> thread_in_wasm \<lparr>trap_happened = False, trap_callback = True, thread_in_wasm = False\<rparr>"
    by (rule t [THEN conjunct2, rule_format, OF h])
  from 1 h 2 show ?thesis by blast
qed

subsection \<open>Tiering\<close>


lemma TierDown_keeps_interpreter: "interpret_fn (TierDown b) = interpret_fn b"
  by (simp add: TierDown_def SetTieredDown_def interpret_fn_def Let_def)



subsection \<open>The nondeterminism flag\<close>

text \<open>
  C9, as the spec states it, fails: the flag is not the observation of the call that has
  just completed. After a call with possible nondeterminism, a second call whose run
  observes none leaves the flag set.
\<close>

theorem possible_nondeterminism_counterexample:
  "Call guest_trapping (run_finishing 1 True) ()
      (example_runner (Some fresh_interpreter) TestExecutionTier.kInterpreter) initial_globals
     = Inr (1, nd_runner, initial_globals)
   \<and> map_sum id (\<lambda>(v, r, g). (v, possible_nondeterminism r,
                    map_option PossibleNondeterminism (interpreter_m (builder_m r))))
       (Call guest_trapping (run_finishing 2 False) () nd_runner initial_globals)
     = Inr (2, True, Some False)"
  by (simp add: Call_def CallInterpreter_def interpret_fn_def example_runner_def
      example_builder_def fresh_interpreter_def run_finishing_def nd_runner_def
      possible_nondeterminism_def Let_def)

text \<open>
  C9, amended. After a call that returns, the flag is its value before the call, or-ed
  with the interpreter's observation when the call ran on the interpreter and the run
  ended \<^verbatim>\<open>FINISHED\<close>: it reports whether nondeterministic bit patterns may have occurred
  during that call or an earlier call of the runner. A call that traps, a call that does
  not finish and a call on a compiled tier leave the flag as it was.
\<close>

theorem possible_nondeterminism_accumulates:
  assumes "Call guest run p r g = Inr (v, r', g')"
  shows "possible_nondeterminism r' =
           (possible_nondeterminism r
            \<or> (\<exists>i. interpreter_m (builder_m r) = Some i \<and> state (run p i) = FINISHED
                   \<and> PossibleNondeterminism (run p i)))"
  using Call_Inr_runner [OF assms]
  by (auto simp: possible_nondeterminism_def split: option.splits)

theorem possible_nondeterminism_accumulates_witness:
  "Call guest_trapping (run_finishing 2 False) () nd_runner initial_globals
     = Inr (2, nd_runner\<lparr>builder_m := (builder_m nd_runner)
                 \<lparr>interpreter_m := Some \<lparr>state = FINISHED, NumInterpretedCalls = 2,
                    GetReturnValue = 2, PossibleNondeterminism = False\<rparr>\<rparr>\<rparr>,
            initial_globals)
   \<and> possible_nondeterminism (nd_runner\<lparr>builder_m := (builder_m nd_runner)
                 \<lparr>interpreter_m := Some \<lparr>state = FINISHED, NumInterpretedCalls = 2,
                    GetReturnValue = 2, PossibleNondeterminism = False\<rparr>\<rparr>\<rparr>)
   \<and> possible_nondeterminism nd_runner"
proof -
  let ?r' = "nd_runner\<lparr>builder_m := (builder_m nd_runner)
                 \<lparr>interpreter_m := Some \<lparr>state = FINISHED, NumInterpretedCalls = 2,
                    GetReturnValue = 2, PossibleNondeterminism = False\<rparr>\<rparr>\<rparr>"
  have h: "Call guest_trapping (run_finishing 2 False) () nd_runner initial_globals
     = Inr (2, ?r', initial_globals)"
    by (simp add: Call_def CallInterpreter_def interpret_fn_def nd_runner_def example_runner_def
        example_builder_def run_finishing_def Let_def)
  have p: "possible_nondeterminism nd_runner"
    by (simp add: possible_nondeterminism_def nd_runner_def)
  from possible_nondeterminism_accumulates [OF h] p
  have "possible_nondeterminism ?r'" by simp
  with h p show ?thesis by blast
qed

subsection \<open>Linear memory\<close>

lemma access_traps_iff:
  "access_traps (a :: 'n::len word) w n
     \<longleftrightarrow> n < unat a + unat w \<or> 2 ^ LENGTH('n) \<le> unat a + unat w"
proof (cases "unat a + unat w < 2 ^ LENGTH('n)")
  case True
  then have le: "a \<le> a + w" by (simp add: no_plus_overflow_unat_size word_size)
  have "unat (a + w) = unat a + unat w" using True by (simp add: unat_add_lem)
  then show ?thesis using True le by (simp add: access_traps_def not_less [symmetric])
next
  case False
  then have "\<not> a \<le> a + w" by (simp add: no_plus_overflow_unat_size word_size)
  then have "a + w < a" by simp
  then show ?thesis using False by (simp add: access_traps_def)
qed

text \<open>
  C6. A load or a store at address \<open>a\<close> of width \<open>w\<close> traps if and only if
  \<open>a + w\<close>, computed without wrap-around, exceeds the current size of the memory or
  does not fit the address type. An access that does not trap stays within the buffer:
  a load yields the \<open>w\<close> bytes from \<open>a\<close>, a store changes exactly these.
\<close>

theorem memory_access_bounds:
  "(LoadMem mem (a :: 'n::len word) w = Inl kTrapMemOutOfBounds
      \<longleftrightarrow> length mem < unat a + unat w \<or> 2 ^ LENGTH('n) \<le> unat a + unat w)
   \<and> (StoreMem mem a w val = Inl kTrapMemOutOfBounds
      \<longleftrightarrow> length mem < unat a + unat w \<or> 2 ^ LENGTH('n) \<le> unat a + unat w)
   \<and> (\<forall>bs. LoadMem mem a w = Inr bs \<longrightarrow>
         length bs = unat w
         \<and> (\<forall>i < unat w. unat a + i < length mem \<and> bs ! i = mem ! (unat a + i)))
   \<and> (\<forall>mem'. StoreMem mem a w val = Inr mem' \<and> length val = unat w \<longrightarrow>
         length mem' = length mem
         \<and> (\<forall>i < length mem. mem' ! i =
               (if unat a \<le> i \<and> i < unat a + unat w then val ! (i - unat a) else mem ! i)))"
proof -
  have c1: "LoadMem mem a w = Inl kTrapMemOutOfBounds
      \<longleftrightarrow> length mem < unat a + unat w \<or> 2 ^ LENGTH('n) \<le> unat a + unat w"
    by (simp add: LoadMem_def access_traps_iff)
  have c2: "StoreMem mem a w val = Inl kTrapMemOutOfBounds
      \<longleftrightarrow> length mem < unat a + unat w \<or> 2 ^ LENGTH('n) \<le> unat a + unat w"
    by (simp add: StoreMem_def access_traps_iff)
  have c3: "length bs = unat w
         \<and> (\<forall>i < unat w. unat a + i < length mem \<and> bs ! i = mem ! (unat a + i))"
    if l: "LoadMem mem a w = Inr bs" for bs
  proof -
    from l have nt: "\<not> access_traps a w (length mem)"
      and bs: "bs = take (unat w) (drop (unat a) mem)"
      by (auto simp: LoadMem_def split: if_splits)
    from nt have b: "unat a + unat w \<le> length mem" by (simp add: access_traps_iff)
    show ?thesis using b by (simp add: bs)
  qed
  have c4: "length mem' = length mem
         \<and> (\<forall>i < length mem. mem' ! i =
               (if unat a \<le> i \<and> i < unat a + unat w then val ! (i - unat a) else mem ! i))"
    if st: "StoreMem mem a w val = Inr mem'" and lv: "length val = unat w" for mem'
  proof -
    from st have nt: "\<not> access_traps a w (length mem)"
      and m': "mem' = take (unat a) mem @ take (unat w) val @ drop (unat a + unat w) mem"
      by (auto simp: StoreMem_def split: if_splits)
    from nt have b: "unat a + unat w \<le> length mem" by (simp add: access_traps_iff)
    have len: "length mem' = length mem" using b lv by (simp add: m')
    have "mem' ! i = (if unat a \<le> i \<and> i < unat a + unat w then val ! (i - unat a) else mem ! i)"
      if "i < length mem" for i
      using that b lv by (auto simp: m' nth_append min_def)
    with len show ?thesis by simp
  qed
  from c1 c2 c3 c4 show ?thesis by blast
qed

theorem memory_access_bounds_witness:
  "LoadMem [1, 2, 3, 4] (2 :: 32 word) 2 = Inr [3, 4]
   \<and> LoadMem [1, 2, 3, 4] (3 :: 32 word) 2 = Inl kTrapMemOutOfBounds
   \<and> LoadMem [1, 2, 3, 4] (0xFFFFFFFF :: 32 word) 2 = Inl kTrapMemOutOfBounds
   \<and> StoreMem [1, 2, 3, 4] (1 :: 32 word) 2 [9, 8] = Inr [1, 9, 8, 4]
   \<and> StoreMem [1, 2, 3, 4] (0xFFFFFFFE :: 32 word) 4 [9, 8, 7, 6] = Inl kTrapMemOutOfBounds"
proof -
  have 1: "LoadMem [1, 2, 3, 4] (2 :: 32 word) 2 = Inr [3, 4]"
    by (simp add: LoadMem_def access_traps_def)
  have 4: "StoreMem [1, 2, 3, 4] (1 :: 32 word) 2 [9, 8] = Inr [1, 9, 8, 4]"
    by (simp add: StoreMem_def access_traps_def)
  have 2: "LoadMem [1, 2, 3, 4] (3 :: 32 word) 2 = Inl kTrapMemOutOfBounds"
    using memory_access_bounds [of "[1, 2, 3, 4]" "3 :: 32 word" 2] by simp
  have 3: "LoadMem [1, 2, 3, 4] (0xFFFFFFFF :: 32 word) 2 = Inl kTrapMemOutOfBounds"
    using memory_access_bounds [of "[1, 2, 3, 4]" "0xFFFFFFFF :: 32 word" 2] by simp
  have 5: "StoreMem [1, 2, 3, 4] (0xFFFFFFFE :: 32 word) 4 [9, 8, 7, 6] = Inl kTrapMemOutOfBounds"
    using memory_access_bounds [of "[1, 2, 3, 4]" "0xFFFFFFFE :: 32 word" 4 "[9, 8, 7, 6]"] by simp
  from 1 2 3 4 5 show ?thesis by blast
qed

subsection \<open>Imports\<close>

lemma Instantiate_sig_only:
  "map sig hs = map sig hs' \<Longrightarrow>
     map_sum id (map fst) (Instantiate m hs) = map_sum id (map fst) (Instantiate m hs')"
proof (induction m arbitrary: hs hs')
  case Nil
  show ?case by simp
next
  case (Cons f fs)
  show ?case
  proof (cases "f_type f")
    case kWasm
    with Cons.IH [OF Cons.prems] show ?thesis
      by (auto split: sum.splits)
  next
    case kImport
    show ?thesis
    proof (cases hs)
      case Nil
      with Cons.prems kImport show ?thesis by simp
    next
      case (Cons h ht)
      with Cons.prems obtain h' ht' where hs': "hs' = h' # ht'" and s: "sig h = sig h'"
        and t: "map sig ht = map sig ht'"
        by (cases hs') auto
      from Cons.IH [OF t] show ?thesis
        using kImport Cons hs' s by (auto split: sum.splits)
    qed
  qed
qed

lemma scenario_A_instance:
  "Instantiate scenario_A_module [host_add]
     = Inr [(sig_i_ii, HostCode (js_function host_add)),
            (sig_i_i, GuestCode [LocalGet 0, LocalGet 0, CallFunction 0])]"
  by (simp add: scenario_A_module_def host_add_def)

lemma scenario_A_run:
  "invoke (Suc (Suc (Suc (Suc k))))
      [(sig_i_ii, HostCode (js_function host_add)),
       (sig_i_i, GuestCode [LocalGet 0, LocalGet 0, CallFunction 0])] 1 [5]
     = Returned 10"
  by (simp add: invoke_def host_add_def sig_i_i_def sig_i_ii_def)

text \<open>
  C8. Binding an import checks its signature and nothing else: whether instantiation
  succeeds, and with which signatures, depends on the signatures of the supplied host
  functions only; a missing import and an import of another signature fail instantiation.
  In scenario A the module instantiates with a host \<open>mul\<close> that adds, and
  \<open>main(5)\<close> then returns 10, not 25, under every step budget of at least 4.
\<close>

theorem import_binding_checks_signatures_only:
  "(\<forall>m hs hs'. map sig hs = map sig hs' \<longrightarrow>
       map_sum id (map fst) (Instantiate m hs) = map_sum id (map fst) (Instantiate m hs'))
   \<and> Instantiate scenario_A_module [] = Inl MissingImport
   \<and> Instantiate scenario_A_module [host_add\<lparr>sig := sig_i_i\<rparr>] = Inl SignatureMismatch
   \<and> (\<exists>inst. Instantiate scenario_A_module [host_add] = Inr inst
         \<and> (\<forall>budget. 4 \<le> budget \<longrightarrow>
               invoke budget inst 1 [5] = Returned 10
               \<and> invoke budget inst 1 [5] \<noteq> Returned 25))"
proof -
  have 1: "\<forall>m hs hs'. map sig hs = map sig hs' \<longrightarrow>
       map_sum id (map fst) (Instantiate m hs) = map_sum id (map fst) (Instantiate m hs')"
    using Instantiate_sig_only by blast
  have 2: "Instantiate scenario_A_module [] = Inl MissingImport"
    by (simp add: scenario_A_module_def)
  have 3: "Instantiate scenario_A_module [host_add\<lparr>sig := sig_i_i\<rparr>] = Inl SignatureMismatch"
    by (simp add: scenario_A_module_def host_add_def sig_i_i_def sig_i_ii_def)
  have 4: "invoke budget [(sig_i_ii, HostCode (js_function host_add)),
            (sig_i_i, GuestCode [LocalGet 0, LocalGet 0, CallFunction 0])] 1 [5] = Returned 10"
    if "4 \<le> budget" for budget
  proof -
    from that have "budget = Suc (Suc (Suc (Suc (budget - 4))))" by simp
    then show ?thesis using scenario_A_run [of "budget - 4"] by simp
  qed
  have 5: "\<exists>inst. Instantiate scenario_A_module [host_add] = Inr inst
         \<and> (\<forall>budget. 4 \<le> budget \<longrightarrow>
               invoke budget inst 1 [5] = Returned 10
               \<and> invoke budget inst 1 [5] \<noteq> Returned 25)"
    by (rule exI [where x = "[(sig_i_ii, HostCode (js_function host_add)),
            (sig_i_i, GuestCode [LocalGet 0, LocalGet 0, CallFunction 0])]"])
      (simp add: scenario_A_instance 4 [unfolded One_nat_def])
  from 1 2 3 5 show ?thesis by blast
qed

theorem import_binding_checks_signatures_only_witness:
  "map_sum id (map fst) (Instantiate scenario_A_module [host_add])
     = map_sum id (map fst) (Instantiate scenario_A_module [host_mul])
   \<and> (\<exists>inst. Instantiate scenario_A_module [host_add] = Inr inst
         \<and> invoke 4 inst 1 [5] = Returned 10)
   \<and> (\<exists>inst. Instantiate scenario_A_module [host_mul] = Inr inst
         \<and> invoke 4 inst 1 [5] = Returned 25)"
proof -
  note t = import_binding_checks_signatures_only
  have s: "map sig [host_add] = map sig [host_mul]"
    by (simp add: host_add_def host_mul_def)
  have 1: "map_sum id (map fst) (Instantiate scenario_A_module [host_add])
     = map_sum id (map fst) (Instantiate scenario_A_module [host_mul])"
    by (rule t [THEN conjunct1, rule_format, OF s])
  from t [THEN conjunct2, THEN conjunct2, THEN conjunct2]
  obtain inst where i: "Instantiate scenario_A_module [host_add] = Inr inst"
    and r: "\<forall>budget. 4 \<le> budget \<longrightarrow>
               invoke budget inst 1 [5] = Returned 10
               \<and> invoke budget inst 1 [5] \<noteq> Returned 25"
    by blast
  from r have "invoke 4 inst 1 [5] = Returned 10" by simp
  with i have 2: "\<exists>inst. Instantiate scenario_A_module [host_add] = Inr inst
         \<and> invoke 4 inst 1 [5] = Returned 10"
    by blast
  have 3: "\<exists>inst. Instantiate scenario_A_module [host_mul] = Inr inst
         \<and> invoke 4 inst 1 [5] = Returned 25"
    by (simp add: scenario_A_module_def host_mul_def invoke_def sig_i_i_def sig_i_ii_def
        eval_nat_numeral)
  from 1 2 3 show ?thesis by blast
qed

end
